theory Spec2Isabelle
  imports Main
begin

section \<open>Text primitives of the Python source\<close>

text \<open>
  Python strings are modelled as \<open>string\<close> (lists of 8-bit characters). The model is
  meant for ASCII text: on code points below 128 the character classes and the case
  mappings below are those of CPython (\<open>str.isspace\<close>, the regular-expression class
  \<open>\s\<close>, \<open>str.upper\<close>, \<open>str.lower\<close>); characters from 128 on are left alone.
\<close>

definition nl :: string where
  "nl = [CHR 0x0A]"

definition tab :: char where
  "tab = CHR 0x09"

definition quote :: string where
  "quote = [CHR 0x27]"

definition dquote :: string where
  "dquote = [CHR 0x22]"

text \<open>\<open>str.isspace\<close> and \<open>\s\<close> on ASCII: TAB, LF, VT, FF, CR, FS, GS, RS, US and the blank.\<close>

definition is_space :: "char \<Rightarrow> bool" where
  "is_space c = (c \<in> set [CHR 0x09, CHR 0x0A, CHR 0x0B, CHR 0x0C, CHR 0x0D,
                            CHR 0x1C, CHR 0x1D, CHR 0x1E, CHR 0x1F, CHR 0x20])"

text \<open>The regular-expression class \<open>[a-zA-Z]\<close>.\<close>

definition is_lower :: "char \<Rightarrow> bool" where
  "is_lower c = ((97::nat) \<le> of_char c \<and> of_char c \<le> (122::nat))"

definition is_upper :: "char \<Rightarrow> bool" where
  "is_upper c = ((65::nat) \<le> of_char c \<and> of_char c \<le> (90::nat))"

definition is_alpha :: "char \<Rightarrow> bool" where
  "is_alpha c = (is_lower c \<or> is_upper c)"

definition upper_char :: "char \<Rightarrow> char" where
  "upper_char c = (if is_lower c then char_of (of_char c - (32::nat)) else c)"

definition lower_char :: "char \<Rightarrow> char" where
  "lower_char c = (if is_upper c then char_of (of_char c + (32::nat)) else c)"

definition upper :: "string \<Rightarrow> string" where
  "upper s = map upper_char s"

definition lower :: "string \<Rightarrow> string" where
  "lower s = map lower_char s"

text \<open>\<open>str.strip()\<close>: leading and trailing whitespace removed.\<close>

definition lstrip :: "string \<Rightarrow> string" where
  "lstrip s = dropWhile is_space s"

definition rstrip :: "string \<Rightarrow> string" where
  "rstrip s = rev (dropWhile is_space (rev s))"

definition strip :: "string \<Rightarrow> string" where
  "strip s = rstrip (lstrip s)"

text \<open>\<open>s.startswith(p)\<close>.\<close>

fun startswith :: "string \<Rightarrow> string \<Rightarrow> bool" where
  "startswith s [] = True"
| "startswith [] (p # ps) = False"
| "startswith (c # cs) (p # ps) = (c = p \<and> startswith cs ps)"

text \<open>\<open>sub in s\<close>.\<close>

fun contains :: "string \<Rightarrow> string \<Rightarrow> bool" where
  "contains [] sub = (sub = [])"
| "contains (c # cs) sub = (startswith (c # cs) sub \<or> contains cs sub)"

text \<open>
  \<open>s.replace(old, new)\<close>: every occurrence of \<open>old\<close>, found from left to right without
  overlap, is replaced; an empty \<open>old\<close> matches before every character and at the end.
\<close>

fun replace_from :: "string \<Rightarrow> string \<Rightarrow> string \<Rightarrow> string" where
  "replace_from old new [] = []"
| "replace_from old new (c # cs) =
     (if startswith (c # cs) old
      then new @ replace_from old new (drop (length old - 1) cs)
      else c # replace_from old new cs)"

definition replace :: "string \<Rightarrow> string \<Rightarrow> string \<Rightarrow> string" where
  "replace s old new =
     (if old = [] then new @ concat (map (\<lambda>c. c # new) s) else replace_from old new s)"

text \<open>\<open>s.split(sep, 1)\<close> for a one-character separator: at most two parts.\<close>

definition split1 :: "string \<Rightarrow> char \<Rightarrow> string list" where
  "split1 s sep =
     (if sep \<in> set s
      then [takeWhile (\<lambda>c. c \<noteq> sep) s, tl (dropWhile (\<lambda>c. c \<noteq> sep) s)]
      else [s])"

text \<open>\<open>s.split(sep)\<close> for a one-character separator: never an empty list.\<close>

fun split :: "string \<Rightarrow> char \<Rightarrow> string list" where
  "split [] sep = [[]]"
| "split (c # cs) sep =
     (if c = sep then [] # split cs sep
      else (case split cs sep of p # ps \<Rightarrow> (c # p) # ps | [] \<Rightarrow> [[c]]))"

text \<open>Python's truthiness of an optional string, and \<open>x or d\<close>.\<close>

definition truthy :: "string option \<Rightarrow> bool" where
  "truthy x = (case x of None \<Rightarrow> False | Some s \<Rightarrow> s \<noteq> [])"

definition or_default :: "string option \<Rightarrow> string \<Rightarrow> string" where
  "or_default x d = (if truthy x then the x else d)"

text \<open>The \<open>str()\<close> of an optional string inside an f-string: \<open>None\<close> prints as its name.\<close>

definition fmt_opt :: "string option \<Rightarrow> string" where
  "fmt_opt x = (case x of None \<Rightarrow> ''None'' | Some s \<Rightarrow> s)"

section \<open>The manifest patch (resource\_manager.py, update\_compose\_file)\<close>

subsection \<open>The regular expression that removes the old section\<close>

text \<open>
  The source removes the old section with
  \<^verbatim>\<open>re.sub(r'\n\s*deploy:.*?(?=\n\s*[a-zA-Z]|\n\s*$|\Z)', '', content, flags=re.DOTALL)\<close>.
  The matcher below follows the backtracking semantics of that one pattern.

  The lookahead holds at a position when the rest of the text is empty (\<open>\Z\<close>), or starts
  with a newline followed by whitespace and then a letter, or starts with a newline
  followed by whitespace only (\<open>$\<close> without MULTILINE is the end of the text or the
  position before a final newline, and the greedy \<open>\s*\<close> can give that newline back).
  A shorter run of \<open>\s*\<close> never helps the first alternative: the character after it
  would be whitespace, not a letter.
\<close>

definition lookahead :: "string \<Rightarrow> bool" where
  "lookahead s =
     (case s of
        [] \<Rightarrow> True
      | c # cs \<Rightarrow> c = CHR 0x0A \<and>
          (case dropWhile is_space cs of [] \<Rightarrow> True | d # ds \<Rightarrow> is_alpha d))"

text \<open>
  \<open>.*?\<close> with DOTALL: the shortest run of arbitrary characters after which the lookahead
  holds. The result is the text that remains after the match.
\<close>

fun lazy_dot :: "string \<Rightarrow> string" where
  "lazy_dot [] = []"
| "lazy_dot (c # cs) = (if lookahead (c # cs) then c # cs else lazy_dot cs)"

text \<open>
  One attempt to match the pattern at the start of \<open>s\<close>: a newline, the longest run of
  whitespace (a shorter run would be followed by whitespace, not by \<open>d\<close>), the literal
  \<open>deploy:\<close>, then the lazy run. \<open>Some r\<close>: the pattern matched and \<open>r\<close> is what follows
  the match.
\<close>

definition match_deploy :: "string \<Rightarrow> string option" where
  "match_deploy s =
     (case s of
        [] \<Rightarrow> None
      | c # cs \<Rightarrow>
          if c = CHR 0x0A \<and> startswith (dropWhile is_space cs) ''deploy:''
          then Some (lazy_dot (drop 7 (dropWhile is_space cs)))
          else None)"

lemma length_lazy_dot: "length (lazy_dot s) \<le> length s"
  by (induction s) (auto simp: le_SucI)

lemma startswith_length: "startswith s p \<Longrightarrow> length p \<le> length s"
  by (induction s p rule: startswith.induct) auto

lemma match_deploy_shorter: "match_deploy s = Some r \<Longrightarrow> length r < length s"
proof -
  assume m: "match_deploy s = Some r"
  then obtain c cs where s: "s = c # cs" and
    sw: "startswith (dropWhile is_space cs) ''deploy:''" and
    r: "r = lazy_dot (drop 7 (dropWhile is_space cs))"
    by (auto simp: match_deploy_def split: list.splits if_splits)
  have "length r \<le> length (drop 7 (dropWhile is_space cs))"
    unfolding r by (rule length_lazy_dot)
  also have "\<dots> \<le> length (dropWhile is_space cs)" by simp
  also have "\<dots> \<le> length cs" by (rule length_dropWhile_le)
  finally show ?thesis by (simp add: s)
qed

text \<open>
  \<open>re.sub\<close> with the empty replacement: the text is scanned from left to right; where the
  pattern matches, the match is dropped and the scan goes on behind it (a match is never
  empty here); elsewhere the character is kept.
\<close>

function re_sub_deploy :: "string \<Rightarrow> string" where
  "re_sub_deploy [] = []"
| "re_sub_deploy (c # cs) =
     (case match_deploy (c # cs) of
        Some r \<Rightarrow> re_sub_deploy r
      | None \<Rightarrow> c # re_sub_deploy cs)"
  by pat_completeness auto
termination
  by (relation "measure length") (auto dest: match_deploy_shorter)

subsection \<open>Results, the manifest file and the platform\<close>

text \<open>
  The methods of \<open>ResourceManager\<close> return dictionaries; a record with optional fields
  holds the keys the source uses. \<open>limits\<close> is the pair of \<open>cpu\<close> and \<open>memory\<close> as passed
  in, \<open>current_limits\<close> the pair read back from the runtime.
\<close>

record result =
  success :: bool
  message :: "string option"
  error :: "string option"
  limits :: "(string option \<times> string option) option"
  current_limits :: "(string \<times> string) option"
  container_status :: "string option"
  status :: "string option"

definition no_result :: result where
  "no_result = \<lparr>success = False, message = None, error = None, limits = None,
                 current_limits = None, container_status = None, status = None\<rparr>"

definition failure :: "string \<Rightarrow> string \<Rightarrow> result" where
  "failure msg err = no_result\<lparr>message := Some msg, error := Some err\<rparr>"

text \<open>
  The manifest file \<open>docker-compose-up.yml\<close>. \<open>compose_text\<close> is its content, \<open>None\<close> when
  \<open>open(..., 'r')\<close> raises, with \<open>read_error\<close> the text of that exception;
  \<open>write_error = Some e\<close> when \<open>open(..., 'w')\<close> raises with text \<open>e\<close>. A write that
  opens the file succeeds.
\<close>

record manifest_file =
  compose_text :: "string option"
  read_error :: string
  write_error :: "string option"

text \<open>
  Floating point is not part of the embedding. What the source computes with floats is
  taken from the platform: \<open>float_half s\<close> is the text of \<open>float(s) * 0.5\<close> (\<open>Inl e\<close> when
  \<open>float(s)\<close> raises ValueError with text \<open>e\<close>), \<open>fmt_1f a b\<close> and \<open>fmt_0f a b\<close> are
  \<open>f"{a / b:.1f}"\<close> and \<open>f"{a / b:.0f}"\<close> for \<open>b \<noteq> 0\<close>.
\<close>

record platform =
  float_half :: "string \<Rightarrow> string + string"
  fmt_1f :: "int \<Rightarrow> int \<Rightarrow> string"
  fmt_0f :: "int \<Rightarrow> int \<Rightarrow> string"

subsection \<open>update\_compose\_file\<close>

definition marker :: string where
  "marker = ''container_name: satlyt-container''"

text \<open>\<open>float(cpu_limit or 1.0) * 0.5\<close>; without a limit it is \<open>1.0 * 0.5\<close>, printed \<open>0.5\<close>.\<close>

definition reservation_cpus :: "platform \<Rightarrow> string option \<Rightarrow> string + string" where
  "reservation_cpus pf cpu_limit =
     (if truthy cpu_limit then float_half pf (the cpu_limit) else Inr ''0.5'')"

definition limits_section :: "string option \<Rightarrow> string option \<Rightarrow> string \<Rightarrow> string" where
  "limits_section cpu_limit memory_limit half =
     ''    deploy:'' @ nl @
     ''      resources:'' @ nl @
     ''        limits:'' @ nl @
     ''          cpus: '' @ quote @ or_default cpu_limit ''1.0'' @ quote @ nl @
     ''          memory: '' @ or_default memory_limit ''1G'' @ nl @
     ''        reservations:'' @ nl @
     ''          cpus: '' @ quote @ half @ quote @ nl @
     ''          memory: '' @ or_default memory_limit ''512M''"

text \<open>The text the source writes back, from the text it read.\<close>

definition patched :: "string \<Rightarrow> string \<Rightarrow> string" where
  "patched content section =
     replace (if contains content ''deploy:'' then re_sub_deploy content else content)
       marker (marker @ nl @ section)"

definition update_compose_file ::
  "platform \<Rightarrow> manifest_file \<Rightarrow> string option \<Rightarrow> string option \<Rightarrow> result \<times> manifest_file" where
  "update_compose_file pf f cpu_limit memory_limit =
     (case compose_text f of
        None \<Rightarrow>
          (failure (''Error updating compose file: '' @ read_error f) ''FILE_UPDATE_FAILED'', f)
      | Some content \<Rightarrow>
          (case reservation_cpus pf cpu_limit of
             Inl e \<Rightarrow>
               (failure (''Error updating compose file: '' @ e) ''FILE_UPDATE_FAILED'', f)
           | Inr half \<Rightarrow>
               (case write_error f of
                  Some e \<Rightarrow>
                    (failure (''Error updating compose file: '' @ e) ''FILE_UPDATE_FAILED'', f)
                | None \<Rightarrow>
                    (no_result\<lparr>success := True\<rparr>,
                     f\<lparr>compose_text :=
                         Some (patched content
                                 (limits_section cpu_limit memory_limit half))\<rparr>))))"

subsection \<open>The baseline manifest of reset\_resource\_limits\<close>

definition original_content :: string where
  "original_content =
     ''services:'' @ nl @
     ''  satlyt-server:'' @ nl @
     ''    build: ./satlyt_clean'' @ nl @
     ''    ports:'' @ nl @
     ''      - '' @ dquote @ ''3000:3000'' @ dquote @ nl @
     ''    volumes:'' @ nl @
     ''      - ./satlyt_clean/results:/app/results'' @ nl @
     ''      - ./satlyt_clean/errors:/app/errors'' @ nl @
     ''    container_name: satlyt-container''"

section \<open>The resource manager (resource\_manager.py)\<close>

subsection \<open>The container runtime as seen by one invocation\<close>

text \<open>
  \<open>subprocess.run(..., capture_output=True, text=True)\<close> gives a return code and the two
  captured streams.
\<close>

record proc =
  returncode :: int
  stdout :: string
  stderr :: string

text \<open>
  The part of \<open>json.loads(result.stdout)[0]\<close> that \<open>get_current_limits\<close> reads: the
  \<open>HostConfig\<close> object with its integer entries, each present or not.
\<close>

record host_config =
  CpuQuota :: "int option"
  CpuPeriod :: "int option"
  CpuCount :: "int option"
  Memory :: "int option"

text \<open>
  What the runtime answers to each command line the manager issues, in one invocation.
  \<open>subprocess.run(..., text=True)\<close> can itself raise, for instance UnicodeDecodeError
  when the output of the command cannot be decoded: a field \<open>..._raises\<close> is \<open>Some e\<close>
  when the call for that command line raises with text \<open>e\<close>, and the captured result of
  the command is then never seen. \<open>inspect_json\<close> stands for
  \<open>json.loads(stdout)[0]\<close> on the output of \<open>docker inspect\<close>: \<open>Inl e\<close> when the
  call, the parsing or the indexing raises (\<open>get_current_limits\<close> answers all three,
  like a failed query, with \<open>unknown\<close>), \<open>Inr None\<close> for an object without
  \<open>HostConfig\<close>, \<open>Inr (Some h)\<close> otherwise.
\<close>

record runtime =
  compose_down :: proc
  compose_down_raises :: "string option"
  docker_rm :: proc
  docker_rm_raises :: "string option"
  compose_up_force :: proc
  compose_up_force_raises :: "string option"
  compose_up :: proc
  compose_up_raises :: "string option"
  docker_ps :: proc
  docker_ps_raises :: "string option"
  docker_inspect :: proc
  inspect_json :: "string + host_config option"

subsection \<open>Printing integers\<close>

definition digit :: "nat \<Rightarrow> char" where
  "digit d = char_of (48 + d)"

fun str_nat :: "nat \<Rightarrow> string" where
  "str_nat n = (if n < 10 then [digit n] else str_nat (n div 10) @ [digit (n mod 10)])"

declare str_nat.simps [simp del]

definition str_int :: "int \<Rightarrow> string" where
  "str_int i = (if i < 0 then CHR ''-'' # str_nat (nat (- i)) else str_nat (nat i))"

subsection \<open>verify\_container\_status\<close>

definition verify_container_status :: "runtime \<Rightarrow> result" where
  "verify_container_status rt =
     (case docker_ps_raises rt of
        Some e \<Rightarrow> failure (''Error verifying container: '' @ e) ''VERIFICATION_FAILED''
      | None \<Rightarrow>
          let result = docker_ps rt in
          if returncode result \<noteq> 0 \<or> strip (stdout result) = []
          then failure ''Container is not running'' ''CONTAINER_NOT_RUNNING''
          else
            let status = strip (stdout result) in
            if \<not> contains status ''Up''
            then failure (''Container status: '' @ status) ''CONTAINER_NOT_HEALTHY''
            else no_result\<lparr>success := True, status := Some status,
                             message := Some ''Container is running and healthy''\<rparr>)"

subsection \<open>get\_current\_limits\<close>

text \<open>
  The CPU entry; \<open>None\<close> is the ZeroDivisionError of \<open>cpu_quota / cpu_period\<close>, which the
  method's handler turns into the answer \<open>unknown\<close> for both entries.
\<close>

definition read_cpu :: "platform \<Rightarrow> host_config \<Rightarrow> string option" where
  "read_cpu pf h =
     (if CpuQuota h \<noteq> None \<and> the (CpuQuota h) > 0
      then
        let cpu_quota = the (CpuQuota h);
            cpu_period = (case CpuPeriod h of None \<Rightarrow> 100000 | Some p \<Rightarrow> p)
        in if cpu_period = 0 then None else Some (fmt_1f pf cpu_quota cpu_period)
      else if CpuCount h \<noteq> None \<and> the (CpuCount h) > 0
      then Some (str_int (the (CpuCount h)))
      else Some ''unlimited'')"

definition read_memory :: "platform \<Rightarrow> host_config \<Rightarrow> string" where
  "read_memory pf h =
     (if Memory h \<noteq> None \<and> the (Memory h) > 0
      then
        let memory_bytes = the (Memory h) in
        if memory_bytes \<ge> 1024 ^ 3 then fmt_1f pf memory_bytes (1024 ^ 3) @ ''G''
        else if memory_bytes \<ge> 1024 ^ 2 then fmt_0f pf memory_bytes (1024 ^ 2) @ ''M''
        else str_int memory_bytes @ ''B''
      else ''unlimited'')"

definition get_current_limits :: "platform \<Rightarrow> runtime \<Rightarrow> string \<times> string" where
  "get_current_limits pf rt =
     (if returncode (docker_inspect rt) \<noteq> 0 then (''unknown'', ''unknown'')
      else
        (case inspect_json rt of
           Inl e \<Rightarrow> (''unknown'', ''unknown'')
         | Inr None \<Rightarrow> (''unlimited'', ''unlimited'')
         | Inr (Some h) \<Rightarrow>
             (case read_cpu pf h of
                None \<Rightarrow> (''unknown'', ''unknown'')
              | Some cpu_limit \<Rightarrow> (cpu_limit, read_memory pf h))))"

subsection \<open>set\_resource\_limits and reset\_resource\_limits\<close>

text \<open>
  Each method returns its result and the manifest file as it leaves it. The removal of
  the old container (\<open>docker rm\<close>) is run and its outcome ignored, as in the source. The
  settle delay has no effect on the result. A call of \<open>subprocess.run\<close> that raises is
  caught by the handler at the end of the method, which returns \<open>EXCEPTION\<close> with the
  manifest as the steps before have left it; the methods that are called catch their own
  exceptions.
\<close>

definition set_resource_limits ::
  "platform \<Rightarrow> runtime \<Rightarrow> manifest_file \<Rightarrow> string option \<Rightarrow> string option
     \<Rightarrow> result \<times> manifest_file" where
  "set_resource_limits pf rt f cpu_limit memory_limit =
     (case compose_down_raises rt of
        Some e \<Rightarrow> (failure (''Error setting resource limits: '' @ e) ''EXCEPTION'', f)
      | None \<Rightarrow>
          let stop_result = compose_down rt in
          if returncode stop_result \<noteq> 0
          then (failure (''Failed to stop container: '' @ stderr stop_result)
                  ''STOP_CONTAINER_FAILED'', f)
          else
            (case update_compose_file pf f cpu_limit memory_limit of
               (update_result, f') \<Rightarrow>
                 if \<not> success update_result then (update_result, f')
                 else
                   (case docker_rm_raises rt of
                      Some e \<Rightarrow>
                        (failure (''Error setting resource limits: '' @ e) ''EXCEPTION'', f')
                    | None \<Rightarrow>
                        (case compose_up_force_raises rt of
                           Some e \<Rightarrow>
                             (failure (''Error setting resource limits: '' @ e) ''EXCEPTION'',
                              f')
                         | None \<Rightarrow>
                             let start_result = compose_up_force rt in
                             if returncode start_result \<noteq> 0
                             then (failure
                                     (''Failed to start container: '' @ stderr start_result)
                                     ''START_CONTAINER_FAILED'', f')
                             else
                               let verify_result = verify_container_status rt in
                               if \<not> success verify_result then (verify_result, f')
                               else
                                 (no_result\<lparr>success := True,
                                    message := Some ''Resource limits applied successfully'',
                                    limits := Some (cpu_limit, memory_limit),
                                    current_limits := Some (get_current_limits pf rt),
                                    container_status := status verify_result\<rparr>, f')))))"

text \<open>
  \<open>reset_resource_limits\<close> runs the stop command and does not look at its result. The
  call of the stop command stands inside the \<open>try\<close>, in front of the write: when it
  raises, the method returns \<open>EXCEPTION\<close> and the manifest is not written. When the call
  of the start command raises, the manifest has been written already.
\<close>

definition reset_resource_limits :: "runtime \<Rightarrow> manifest_file \<Rightarrow> result \<times> manifest_file" where
  "reset_resource_limits rt f =
     (case compose_down_raises rt of
        Some e \<Rightarrow> (failure (''Error resetting limits: '' @ e) ''EXCEPTION'', f)
      | None \<Rightarrow>
          let stop_result = compose_down rt in
          (case write_error f of
             Some e \<Rightarrow> (failure (''Error resetting limits: '' @ e) ''EXCEPTION'', f)
           | None \<Rightarrow>
               let f' = f\<lparr>compose_text := Some original_content\<rparr> in
               (case compose_up_raises rt of
                  Some e \<Rightarrow> (failure (''Error resetting limits: '' @ e) ''EXCEPTION'', f')
                | None \<Rightarrow>
                    let start_result = compose_up rt in
                    if returncode start_result \<noteq> 0
                    then (failure (''Failed to start container: '' @ stderr start_result)
                            ''START_CONTAINER_FAILED'', f')
                    else
                      (no_result\<lparr>success := True,
                         message := Some ''Resource limits reset to default (unlimited)'',
                         limits := Some (Some ''unlimited'', Some ''unlimited'')\<rparr>, f'))))"

subsection \<open>The command lines the two methods hand to the shell\<close>

definition down_cmd :: string where
  "down_cmd = ''docker-compose -f docker-compose-up.yml down''"

definition rm_cmd :: string where
  "rm_cmd = ''docker rm satlyt-container''"

definition up_force_cmd :: string where
  "up_force_cmd = ''docker-compose -f docker-compose-up.yml up -d --force-recreate''"

definition up_cmd :: string where
  "up_cmd = ''docker-compose -f docker-compose-up.yml up -d''"

definition ps_cmd :: string where
  "ps_cmd = ''docker ps --filter name=satlyt-container --format '' @ quote @ ''{{.Status}}'' @ quote"

definition inspect_cmd :: string where
  "inspect_cmd = ''docker inspect satlyt-container''"

text \<open>
  The commands that \<open>set_resource_limits\<close> runs, in their order, for the default
  manifest path: the method stops at the step at which it returns.
\<close>

definition set_resource_limits_commands ::
  "platform \<Rightarrow> runtime \<Rightarrow> manifest_file \<Rightarrow> string option \<Rightarrow> string option \<Rightarrow> string list" where
  "set_resource_limits_commands pf rt f cpu_limit memory_limit =
     (if compose_down_raises rt \<noteq> None then [down_cmd]
      else if returncode (compose_down rt) \<noteq> 0 then [down_cmd]
      else if \<not> success (fst (update_compose_file pf f cpu_limit memory_limit)) then [down_cmd]
      else if docker_rm_raises rt \<noteq> None then [down_cmd, rm_cmd]
      else if compose_up_force_raises rt \<noteq> None then [down_cmd, rm_cmd, up_force_cmd]
      else if returncode (compose_up_force rt) \<noteq> 0 then [down_cmd, rm_cmd, up_force_cmd]
      else if \<not> success (verify_container_status rt)
      then [down_cmd, rm_cmd, up_force_cmd, ps_cmd]
      else [down_cmd, rm_cmd, up_force_cmd, ps_cmd, inspect_cmd])"

text \<open>The commands that \<open>reset_resource_limits\<close> runs.\<close>

definition reset_resource_limits_commands :: "runtime \<Rightarrow> manifest_file \<Rightarrow> string list" where
  "reset_resource_limits_commands rt f =
     (if compose_down_raises rt \<noteq> None then [down_cmd]
      else case write_error f of Some e \<Rightarrow> [down_cmd] | None \<Rightarrow> [down_cmd, up_cmd])"

subsection \<open>The command line (main)\<close>

text \<open>
  What a run of \<open>python3 resource_manager.py ...\<close> leaves behind: the exit code, the
  lines \<open>main\<close> prints and the text on standard error. Every \<open>print\<close> of the file goes
  to standard output (the progress lines of the methods are not listed in \<open>printed\<close>);
  nothing in the file writes to standard error.
\<close>

record child =
  exit_code :: int
  printed :: "string list"
  err_text :: string

definition usage :: "string list" where
  "usage =
     [''Usage:'',
      ''  python3 resource_manager.py set <cpu_limit> <memory_limit>'',
      ''  python3 resource_manager.py reset'',
      ''  python3 resource_manager.py status'',
      [],
      ''Examples:'',
      ''  python3 resource_manager.py set 0.5 512M'',
      ''  python3 resource_manager.py set 1.0 1G'',
      ''  python3 resource_manager.py reset'',
      ''  python3 resource_manager.py status'']"

definition main ::
  "platform \<Rightarrow> runtime \<Rightarrow> manifest_file \<Rightarrow> string list \<Rightarrow> child \<times> manifest_file" where
  "main pf rt f argv =
     (if length argv < 2 then (\<lparr>exit_code = 1, printed = usage, err_text = []\<rparr>, f)
      else
        let command = lower (argv ! 1) in
        if command = ''set'' then
          if length argv < 4
          then (\<lparr>exit_code = 1,
                  printed = ['' Error: CPU and memory limits required'',
                    ''Usage: python3 resource_manager.py set <cpu_limit> <memory_limit>''],
                  err_text = []\<rparr>, f)
          else
            (case set_resource_limits pf rt f (Some (argv ! 2)) (Some (argv ! 3)) of
               (result, f') \<Rightarrow>
                 if success result
                 then (\<lparr>exit_code = 0,
                         printed =
                           ['' '' @ the (message result),
                            '' Applied limits: CPU='' @ fmt_opt (fst (the (limits result)))
                              @ '', Memory='' @ fmt_opt (snd (the (limits result))),
                            '' Current limits: CPU='' @ fst (the (current_limits result))
                              @ '', Memory='' @ snd (the (current_limits result))],
                         err_text = []\<rparr>, f')
                 else (\<lparr>exit_code = 1, printed = ['' '' @ the (message result)],
                         err_text = []\<rparr>, f'))
        else if command = ''reset'' then
          (case reset_resource_limits rt f of
             (result, f') \<Rightarrow>
               if success result
               then (\<lparr>exit_code = 0, printed = ['' '' @ the (message result)],
                       err_text = []\<rparr>, f')
               else (\<lparr>exit_code = 1, printed = [the (message result)],
                       err_text = []\<rparr>, f'))
        else if command = ''status'' then
          (let limits = get_current_limits pf rt;
               status = verify_container_status rt
           in (\<lparr>exit_code = 0,
                 printed =
                   ['' Current resource limits:'',
                    ''   CPU: '' @ fst limits,
                    ''   Memory: '' @ snd limits,
                    ''Container status: ''
                      @ (if success status then the (result.status status) else ''Error'')],
                 err_text = []\<rparr>, f))
        else (\<lparr>exit_code = 1, printed = ['' Unknown command: '' @ command],
                err_text = []\<rparr>, f))"

section \<open>The gateway (gateway.py)\<close>

subsection \<open>What the gateway sees of its surroundings while it serves one command\<close>

text \<open>
  The answers of the runtime to the gateway's own command lines, the clock, the HTTP
  collaborator, and the surroundings in which the child process
  \<open>python3 resource_manager.py ...\<close> runs. \<open>call_api\<close> returns the reply's JSON or
  \<open>None\<close> (a status other than 200, or an exception); the API answers with JSON objects,
  held here as the list of their keys with the \<open>str()\<close> of each value. The gateway's
  own handlers are modelled for calls of \<open>subprocess.run\<close> that return; a call that
  raises (output that cannot be decoded) is answered by the handler's \<open>except\<close> branch,
  which is left out here.
\<close>

type_synonym api_reply = "(string \<times> string) list"

record surroundings =
  start_proc :: proc
  stop_proc :: proc
  cpu_proc :: proc
  mem_proc :: proc
  mem_percent_proc :: proc
  net_proc :: proc
  block_proc :: proc
  info_proc :: proc
  now_isoformat :: string
  call_api :: "string \<Rightarrow> string \<Rightarrow> api_reply option"
  manager_platform :: platform
  manager_runtime :: runtime

definition container_name :: string where
  "container_name = ''satlyt-container''"

subsection \<open>start\_container and stop\_container\<close>

definition start_container :: "surroundings \<Rightarrow> string" where
  "start_container env =
     (if returncode (start_proc env) = 0 then ''CONTAINER_STARTED'' else ''CONTAINER_ERROR'')"

definition stop_container :: "surroundings \<Rightarrow> string" where
  "stop_container env =
     (if returncode (stop_proc env) = 0 then ''CONTAINER_STOPPED'' else ''CONTAINER_ERROR'')"

subsection \<open>json.dumps of a dictionary of strings\<close>

definition hex_digit :: "nat \<Rightarrow> char" where
  "hex_digit d = (if d < 10 then char_of (48 + d) else char_of (87 + d))"

text \<open>
  The escapes of \<open>json.dumps\<close> with its default \<open>ensure_ascii\<close>: the quote, the
  backslash, the short forms of five control characters, and \<open>\u00xx\<close> for every other
  character outside the printable ASCII range.
\<close>

definition json_escape :: "char \<Rightarrow> string" where
  "json_escape c =
     (if c = CHR 0x22 then [CHR 0x5C, CHR 0x22]
      else if c = CHR 0x5C then [CHR 0x5C, CHR 0x5C]
      else if c = CHR 0x0A then [CHR 0x5C, CHR ''n'']
      else if c = CHR 0x0D then [CHR 0x5C, CHR ''r'']
      else if c = CHR 0x09 then [CHR 0x5C, CHR ''t'']
      else if c = CHR 0x0C then [CHR 0x5C, CHR ''f'']
      else if c = CHR 0x08 then [CHR 0x5C, CHR ''b'']
      else if (32::nat) \<le> of_char c \<and> of_char c \<le> (126::nat) then [c]
      else [CHR 0x5C, CHR ''u'', CHR ''0'', CHR ''0'',
            hex_digit (of_char c div 16), hex_digit (of_char c mod 16)])"

definition json_string :: "string \<Rightarrow> string" where
  "json_string s = dquote @ concat (map json_escape s) @ dquote"

fun json_items :: "(string \<times> string) list \<Rightarrow> string" where
  "json_items [] = []"
| "json_items [(k, v)] = json_string k @ '': '' @ json_string v"
| "json_items ((k, v) # kvs) = json_string k @ '': '' @ json_string v @ '', '' @ json_items kvs"

definition json_dumps :: "(string \<times> string) list \<Rightarrow> string" where
  "json_dumps d = ''{'' @ json_items d @ ''}''"

subsection \<open>get\_container\_status\<close>

text \<open>\<open>r.stdout.strip() if r.returncode == 0 else "N/A"\<close>.\<close>

definition metric :: "proc \<Rightarrow> string" where
  "metric r = (if returncode r = 0 then strip (stdout r) else ''N/A'')"

text \<open>
  The dictionary \<open>status_data\<close>, in the order of its keys. The outcome of the info query
  is read from its standard output alone.
\<close>

definition status_data :: "surroundings \<Rightarrow> (string \<times> string) list" where
  "status_data env =
     (let cpu_percent = metric (cpu_proc env);
          mem_usage = metric (mem_proc env);
          mem_percent = metric (mem_percent_proc env);
          net_io = metric (net_proc env);
          block_io = metric (block_proc env);
          info_parts = split (strip (stdout (info_proc env))) tab;
          status = (if length info_parts > 0 then info_parts ! 0 else ''unknown'');
          started_at = (if length info_parts > 1 then info_parts ! 1 else ''N/A'');
          image = (if length info_parts > 2 then info_parts ! 2 else ''N/A'')
      in [(''container_name'', container_name),
          (''status'', status),
          (''cpu_percent'', cpu_percent),
          (''memory_usage'', mem_usage),
          (''memory_percent'', mem_percent),
          (''network_io'', net_io),
          (''block_io'', block_io),
          (''started_at'', started_at),
          (''image'', image),
          (''timestamp'', now_isoformat env)])"

definition get_container_status :: "surroundings \<Rightarrow> string" where
  "get_container_status env = ''CONTAINER_STATUS:'' @ json_dumps (status_data env)"

subsection \<open>The handlers of the HTTP collaborator\<close>

text \<open>\<open>if result:\<close> holds for a reply that is a non-empty object.\<close>

definition api_truthy :: "api_reply option \<Rightarrow> bool" where
  "api_truthy r = (case r of None \<Rightarrow> False | Some kvs \<Rightarrow> kvs \<noteq> [])"

definition call_run_model :: "surroundings \<Rightarrow> string" where
  "call_run_model env =
     (if api_truthy (call_api env ''/RUN-MODEL'' ''POST'') then ''MODEL_STARTED''
      else ''API_ERROR'')"

text \<open>A missing key raises KeyError, which the handler answers with \<open>CONNECTION_ERROR\<close>.\<close>

definition call_execution_status :: "surroundings \<Rightarrow> string" where
  "call_execution_status env =
     (let result = call_api env ''/MODEL-EXECUTION-STATUS'' ''GET'' in
      if api_truthy result
      then (case map_of (the result) ''status'' of
              Some v \<Rightarrow> ''STATUS:'' @ v
            | None \<Rightarrow> ''CONNECTION_ERROR'')
      else ''API_ERROR'')"

definition call_get_file_number :: "surroundings \<Rightarrow> string" where
  "call_get_file_number env =
     (let result = call_api env ''/GET-FILE-NUMBER'' ''GET'' in
      if api_truthy result
      then (case map_of (the result) ''latest_result_file'' of
              Some v \<Rightarrow> ''FILES:'' @ v
            | None \<Rightarrow> ''CONNECTION_ERROR'')
      else ''API_ERROR'')"

definition call_shutdown :: "surroundings \<Rightarrow> string" where
  "call_shutdown env =
     (if api_truthy (call_api env ''/SHUT-DOWN'' ''POST'') then ''SHUTDOWN_ACK''
      else ''SHUTDOWN_ERROR'')"

subsection \<open>set\_resource\_limits and reset\_resource\_limits of the gateway\<close>

text \<open>
  The loop over the pairs of \<open>cpu=...,memory=...\<close>. Under the guard \<open>"=" in pair\<close>,
  \<open>pair.split("=", 1)\<close> has exactly two parts: the text before the first \<open>=\<close> and the
  text behind it.
\<close>

fun parse_pairs ::
  "string list \<Rightarrow> string option \<times> string option \<Rightarrow> string option \<times> string option" where
  "parse_pairs [] (cpu_limit, memory_limit) = (cpu_limit, memory_limit)"
| "parse_pairs (pair # pairs) (cpu_limit, memory_limit) =
     (if CHR ''='' \<in> set pair
      then
        let key = lower (strip (takeWhile (\<lambda>c. c \<noteq> CHR ''='') pair));
            val = strip (drop 1 (dropWhile (\<lambda>c. c \<noteq> CHR ''='') pair))
        in if key = ''cpu'' then parse_pairs pairs (Some val, memory_limit)
           else if key = ''memory'' then parse_pairs pairs (cpu_limit, Some val)
           else parse_pairs pairs (cpu_limit, memory_limit)
      else parse_pairs pairs (cpu_limit, memory_limit))"

definition cmd_parts :: "string option \<Rightarrow> string option \<Rightarrow> string list" where
  "cmd_parts cpu_limit memory_limit =
     [''python3'', ''resource_manager.py'', ''set'',
      (if truthy cpu_limit then the cpu_limit else ''1.0''),
      (if truthy memory_limit then the memory_limit else ''1G'')]"

text \<open>
  \<open>subprocess.run\<close> of an argument list: an argument with a NUL character raises
  ValueError (\<open>embedded null byte\<close>); otherwise the child runs \<open>main\<close> of
  resource\_manager.py in the gateway's directory, with the arguments behind \<open>python3\<close>
  as its \<open>sys.argv\<close>.
\<close>

definition run_manager ::
  "surroundings \<Rightarrow> manifest_file \<Rightarrow> string list \<Rightarrow> string + child \<times> manifest_file" where
  "run_manager env f parts =
     (if \<exists>a \<in> set parts. CHR 0x00 \<in> set a then Inl ''embedded null byte''
      else Inr (main (manager_platform env) (manager_runtime env) f (tl parts)))"

definition gateway_set_resource_limits ::
  "surroundings \<Rightarrow> manifest_file \<Rightarrow> string \<Rightarrow> string \<times> manifest_file" where
  "gateway_set_resource_limits env f command =
     (case split1 command (CHR '':'') of
        [c, limits_data] \<Rightarrow>
          (case parse_pairs (split limits_data (CHR '','')) (None, None) of
             (cpu_limit, memory_limit) \<Rightarrow>
               if \<not> truthy cpu_limit \<and> \<not> truthy memory_limit
               then (''RESOURCE_LIMITS_ERROR:No limits specified'', f)
               else
                 (case run_manager env f (cmd_parts cpu_limit memory_limit) of
                    Inl e \<Rightarrow> (''RESOURCE_LIMITS_ERROR:'' @ e, f)
                  | Inr (result, f') \<Rightarrow>
                      if exit_code result = 0
                      then (''RESOURCE_LIMITS_SET:CPU='' @ fmt_opt cpu_limit
                              @ '',Memory='' @ fmt_opt memory_limit, f')
                      else (''RESOURCE_LIMITS_ERROR:'' @ err_text result, f')))
      | _ \<Rightarrow> (''RESOURCE_LIMITS_ERROR:list index out of range'', f))"

definition gateway_reset_resource_limits ::
  "surroundings \<Rightarrow> manifest_file \<Rightarrow> string \<times> manifest_file" where
  "gateway_reset_resource_limits env f =
     (case run_manager env f [''python3'', ''resource_manager.py'', ''reset''] of
        Inl e \<Rightarrow> (''RESOURCE_LIMITS_ERROR:'' @ e, f)
      | Inr (result, f') \<Rightarrow>
          if exit_code result = 0 then (''RESOURCE_LIMITS_RESET'', f')
          else (''RESOURCE_LIMITS_ERROR:'' @ err_text result, f'))"

subsection \<open>handle\_text\_prompt\<close>

definition handle_text_prompt :: "string \<Rightarrow> string" where
  "handle_text_prompt command =
     (case split1 command (CHR '':'') of
        [c, text_content] \<Rightarrow> text_content @ '' OK''
      | _ \<Rightarrow> ''TEXT_PROMPT_ERROR:list index out of range'')"

subsection \<open>process\_obc\_command\<close>

text \<open>
  The dispatcher returns the response (\<open>None\<close> for a log line) and the manifest file as
  the command leaves it.
\<close>

definition process_obc_command ::
  "surroundings \<Rightarrow> manifest_file \<Rightarrow> string \<Rightarrow> string option \<times> manifest_file" where
  "process_obc_command env f line =
     (let command = upper (strip line) in
      if startswith command ''[LOG]'' then (None, f)
      else if command = ''START_CONTAINER'' then (Some (start_container env), f)
      else if command = ''STOP_CONTAINER'' then (Some (stop_container env), f)
      else if command = ''GET_CONTAINER_STATUS'' then (Some (get_container_status env), f)
      else if command = ''RUN_PAYLOAD'' then (Some (call_run_model env), f)
      else if command = ''GET_STATUS'' then (Some (call_execution_status env), f)
      else if command = ''GET_FILES'' then (Some (call_get_file_number env), f)
      else if command = ''SHUTDOWN'' then (Some (call_shutdown env), f)
      else if command = ''PING'' then (Some ''PONG'', f)
      else if startswith command ''SET_RESOURCE_LIMITS:''
      then (case gateway_set_resource_limits env f command of (r, f') \<Rightarrow> (Some r, f'))
      else if command = ''RESET_RESOURCE_LIMITS''
      then (case gateway_reset_resource_limits env f of (r, f') \<Rightarrow> (Some r, f'))
      else if startswith command ''TEXT_PROMPT:'' then (Some (handle_text_prompt command), f)
      else (Some (''UNKNOWN_CMD:'' @ command), f))"

section \<open>Example surroundings\<close>

text \<open>
  An example platform for evaluating the model. It formats the exact quotient of two
  positive integers, rounded half to even, and knows the halves of three CPU values;
  on the inputs used in this theory it agrees with CPython.
\<close>

definition round_div :: "int \<Rightarrow> int \<Rightarrow> int" where
  "round_div a b =
     (let q = a div b; r = a mod b
      in if 2 * r > b \<or> (2 * r = b \<and> odd q) then q + 1 else q)"

definition example_platform :: platform where
  "example_platform =
     \<lparr>float_half =
        (\<lambda>s. if s = ''0.5'' then Inr ''0.25''
             else if s = ''1.0'' then Inr ''0.5''
             else if s = ''2.0'' then Inr ''1.0''
             else Inl (''could not convert string to float: '' @ quote @ s @ quote)),
      fmt_1f =
        (\<lambda>a b. str_int (round_div (10 * a) b div 10) @ ''.''
                 @ str_int (round_div (10 * a) b mod 10)),
      fmt_0f = (\<lambda>a b. str_int (round_div a b))\<rparr>"

definition ok_proc :: "string \<Rightarrow> proc" where
  "ok_proc out = \<lparr>returncode = 0, stdout = out, stderr = []\<rparr>"

definition failed_proc :: "string \<Rightarrow> proc" where
  "failed_proc err = \<lparr>returncode = 1, stdout = [], stderr = err\<rparr>"

text \<open>The manifest file holding the baseline document, readable and writable.\<close>

definition baseline_file :: manifest_file where
  "baseline_file = \<lparr>compose_text = Some original_content, read_error = [], write_error = None\<rparr>"

text \<open>
  A runtime in which every command succeeds and the container runs with half a CPU and
  512 MiB of memory.
\<close>

definition limited_config :: host_config where
  "limited_config =
     \<lparr>CpuQuota = Some 50000, CpuPeriod = Some 100000, CpuCount = Some 0,
      Memory = Some 536870912\<rparr>"

definition healthy_runtime :: runtime where
  "healthy_runtime =
     \<lparr>compose_down = ok_proc [], compose_down_raises = None,
      docker_rm = ok_proc ''satlyt-container'', docker_rm_raises = None,
      compose_up_force = ok_proc [], compose_up_force_raises = None,
      compose_up = ok_proc [], compose_up_raises = None,
      docker_ps = ok_proc (''Up 2 seconds'' @ nl), docker_ps_raises = None,
      docker_inspect = ok_proc ''[...]'',
      inspect_json = Inr (Some limited_config)\<rparr>"

text \<open>The same runtime, except that \<open>docker-compose ... down\<close> fails.\<close>

definition stop_diagnostic :: string where
  "stop_diagnostic = ''no configuration file provided: not found'' @ nl"

definition stop_failing_runtime :: runtime where
  "stop_failing_runtime = healthy_runtime\<lparr>compose_down := failed_proc stop_diagnostic\<rparr>"

text \<open>
  The same runtime, except that the output of the stop command cannot be decoded, so
  that \<open>subprocess.run\<close> raises UnicodeDecodeError.
\<close>

definition decode_error :: string where
  "decode_error = quote @ ''utf-8'' @ quote @ '' codec can'' @ quote
     @ ''t decode byte 0xff in position 0: invalid start byte''"

definition stop_raising_runtime :: runtime where
  "stop_raising_runtime = healthy_runtime\<lparr>compose_down_raises := Some decode_error\<rparr>"

text \<open>Surroundings of the gateway in which the container runs and the API answers.\<close>

definition example_api :: "string \<Rightarrow> string \<Rightarrow> api_reply option" where
  "example_api endpoint method =
     (if endpoint = ''/MODEL-EXECUTION-STATUS'' then Some [(''status'', ''idle'')]
      else if endpoint = ''/GET-FILE-NUMBER'' then Some [(''latest_result_file'', ''3'')]
      else Some [(''ok'', ''True'')])"

definition example_surroundings :: surroundings where
  "example_surroundings =
     \<lparr>start_proc = ok_proc [], stop_proc = ok_proc [],
      cpu_proc = ok_proc (''0.15%'' @ nl),
      mem_proc = ok_proc (''21.5MiB / 512MiB'' @ nl),
      mem_percent_proc = ok_proc (''4.20%'' @ nl),
      net_proc = ok_proc (''1.2kB / 0B'' @ nl),
      block_proc = ok_proc (''0B / 0B'' @ nl),
      info_proc = ok_proc (''running'' @ [tab] @ ''2025-01-01T00:00:00Z'' @ [tab]
                            @ ''satlyt-server'' @ nl),
      now_isoformat = ''2025-01-01T00:00:05.000000'',
      call_api = example_api,
      manager_platform = example_platform,
      manager_runtime = healthy_runtime\<rparr>"

section \<open>Facts about the child process and the parsed command\<close>

lemma split1_set_resource_limits:
  "split1 (''SET_RESOURCE_LIMITS:'' @ payload) (CHR '':'') = [''SET_RESOURCE_LIMITS'', payload]"
  by (simp add: split1_def)

lemma lower_set: "lower ''set'' = ''set''"
  by code_simp

text \<open>
  The child process of a \<open>set\<close> command: it exits with 0 exactly when
  \<open>set_resource_limits\<close> succeeds, leaves the manifest as that method leaves it, and
  writes nothing to standard error.
\<close>

lemma main_set:
  "exit_code (fst (main pf rt f [''resource_manager.py'', ''set'', c, m]))
     = (if success (fst (set_resource_limits pf rt f (Some c) (Some m))) then 0 else 1)
   \<and> err_text (fst (main pf rt f [''resource_manager.py'', ''set'', c, m])) = []
   \<and> snd (main pf rt f [''resource_manager.py'', ''set'', c, m])
     = snd (set_resource_limits pf rt f (Some c) (Some m))"
  by (cases "set_resource_limits pf rt f (Some c) (Some m)")
    (simp add: main_def Let_def lower_set)

lemma run_manager_set:
  "CHR 0x00 \<notin> set c \<Longrightarrow> CHR 0x00 \<notin> set m \<Longrightarrow>
   run_manager env f [''python3'', ''resource_manager.py'', ''set'', c, m]
     = Inr (main (manager_platform env) (manager_runtime env) f
              [''resource_manager.py'', ''set'', c, m])"
  by (simp add: run_manager_def)

lemma gateway_set_resource_limits_parsed:
  assumes "parse_pairs (split payload (CHR '','')) (None, None) = (cpu_limit, memory_limit)"
    and "truthy cpu_limit \<or> truthy memory_limit"
  shows "gateway_set_resource_limits env f (''SET_RESOURCE_LIMITS:'' @ payload)
    = (case run_manager env f (cmd_parts cpu_limit memory_limit) of
         Inl e \<Rightarrow> (''RESOURCE_LIMITS_ERROR:'' @ e, f)
       | Inr (result, f') \<Rightarrow>
           if exit_code result = 0
           then (''RESOURCE_LIMITS_SET:CPU='' @ fmt_opt cpu_limit
                   @ '',Memory='' @ fmt_opt memory_limit, f')
           else (''RESOURCE_LIMITS_ERROR:'' @ err_text result, f'))"
  unfolding gateway_set_resource_limits_def split1_set_resource_limits
  using assms by auto

lemma lstrip_nonspace: "p \<noteq> [] \<Longrightarrow> \<not> is_space (hd p) \<Longrightarrow> lstrip (p @ t) = p @ t"
  by (cases p) (simp_all add: lstrip_def)

lemma rstrip_nonspace:
  assumes "p \<noteq> []" and "\<not> is_space (last p)"
  shows "rstrip (p @ t) = p @ rstrip t"
proof -
  have r: "dropWhile is_space (rev p) = rev p"
    using assms by (cases "rev p") (auto simp: hd_rev dest: arg_cong [where f = hd])
  show ?thesis
    by (simp add: rstrip_def dropWhile_append r)
qed

lemma strip_nonspace:
  "p \<noteq> [] \<Longrightarrow> \<not> is_space (hd p) \<Longrightarrow> \<not> is_space (last p) \<Longrightarrow>
   strip (p @ t) = p @ rstrip t"
  by (simp add: strip_def lstrip_nonspace rstrip_nonspace)

lemma split1_text_prompt:
  "split1 (''TEXT_PROMPT:'' @ u) (CHR '':'') = [''TEXT_PROMPT'', u]"
  by (simp add: split1_def)

lemma handle_text_prompt_payload: "handle_text_prompt (''TEXT_PROMPT:'' @ u) = u @ '' OK''"
  unfolding handle_text_prompt_def split1_text_prompt by simp

section \<open>Properties\<close>

subsection \<open>Patching the manifest twice\<close>

text \<open>
  C1. Claimed: applying \<open>update_compose_file\<close> twice with the same values gives the same
  manifest as applying it once. On the baseline document with \<open>cpu = 0.5\<close> and
  \<open>memory = 512M\<close> it does not: the pattern stops in front of the indented line
  \<open>resources:\<close>, so the second application removes the line \<open>deploy:\<close> alone, and the
  seven lines below it stay behind the freshly inserted section.
\<close>

theorem update_compose_file_twice_leaves_orphans:
  "update_compose_file example_platform baseline_file (Some ''0.5'') (Some ''512M'')
     = (no_result\<lparr>success := True\<rparr>,
        baseline_file\<lparr>compose_text := Some (original_content @ nl
           @ limits_section (Some ''0.5'') (Some ''512M'') ''0.25'')\<rparr>)
   \<and> update_compose_file example_platform
       (snd (update_compose_file example_platform baseline_file (Some ''0.5'') (Some ''512M'')))
       (Some ''0.5'') (Some ''512M'')
     = (no_result\<lparr>success := True\<rparr>,
        baseline_file\<lparr>compose_text := Some (original_content @ nl
           @ limits_section (Some ''0.5'') (Some ''512M'') ''0.25'' @ nl
           @ ''      resources:'' @ nl
           @ ''        limits:'' @ nl
           @ ''          cpus: '' @ quote @ ''0.5'' @ quote @ nl
           @ ''          memory: 512M'' @ nl
           @ ''        reservations:'' @ nl
           @ ''          cpus: '' @ quote @ ''0.25'' @ quote @ nl
           @ ''          memory: 512M'')\<rparr>)
   \<and> snd (update_compose_file example_platform
         (snd (update_compose_file example_platform baseline_file (Some ''0.5'') (Some ''512M'')))
         (Some ''0.5'') (Some ''512M''))
     \<noteq> snd (update_compose_file example_platform baseline_file (Some ''0.5'') (Some ''512M''))"
  by code_simp

subsection \<open>A failing stop step while limits are applied\<close>

text \<open>
  The part of C2 that holds for every input: when the stop command returns and exits
  non-zero, \<open>set_resource_limits\<close> returns the failure \<open>STOP_CONTAINER_FAILED\<close> with the
  tool's diagnostic in its message, and the manifest file is the one it was given.
\<close>

lemma set_resource_limits_stop_failed:
  "compose_down_raises rt = None \<Longrightarrow> returncode (compose_down rt) \<noteq> 0 \<Longrightarrow>
   set_resource_limits pf rt f cpu_limit memory_limit
     = (failure (''Failed to stop container: '' @ stderr (compose_down rt))
          ''STOP_CONTAINER_FAILED'', f)"
  by (simp add: set_resource_limits_def Let_def)

lemma set_resource_limits_commands_stop_failed:
  "returncode (compose_down rt) \<noteq> 0 \<Longrightarrow>
   set_resource_limits_commands pf rt f cpu_limit memory_limit = [down_cmd]"
  by (simp add: set_resource_limits_commands_def)

text \<open>
  What the dispatcher answers then, for every payload that names a limit: the tag with
  nothing behind it.
\<close>

lemma gateway_set_resource_limits_stop_failed:
  assumes "parse_pairs (split payload (CHR '','')) (None, None) = (cpu_limit, memory_limit)"
    and "truthy cpu_limit \<or> truthy memory_limit"
    and "\<forall>a \<in> set (cmd_parts cpu_limit memory_limit). CHR 0x00 \<notin> set a"
    and "compose_down_raises (manager_runtime env) = None"
    and "returncode (compose_down (manager_runtime env)) \<noteq> 0"
  shows "gateway_set_resource_limits env f (''SET_RESOURCE_LIMITS:'' @ payload)
    = (''RESOURCE_LIMITS_ERROR:'', f)"
proof -
  let ?c = "if truthy cpu_limit then the cpu_limit else ''1.0''"
  let ?m = "if truthy memory_limit then the memory_limit else ''1G''"
  have parts: "cmd_parts cpu_limit memory_limit
      = [''python3'', ''resource_manager.py'', ''set'', ?c, ?m]"
    by (simp add: cmd_parts_def)
  have z: "CHR 0x00 \<notin> set ?c" "CHR 0x00 \<notin> set ?m"
    using assms(3) unfolding parts by simp_all
  have r: "run_manager env f (cmd_parts cpu_limit memory_limit)
      = Inr (main (manager_platform env) (manager_runtime env) f
               [''resource_manager.py'', ''set'', ?c, ?m])"
    unfolding parts by (rule run_manager_set [OF z])
  obtain result f' where m: "main (manager_platform env) (manager_runtime env) f
      [''resource_manager.py'', ''set'', ?c, ?m] = (result, f')"
    by (cases "main (manager_platform env) (manager_runtime env) f
      [''resource_manager.py'', ''set'', ?c, ?m]")
  have st: "set_resource_limits (manager_platform env) (manager_runtime env) f (Some ?c) (Some ?m)
      = (failure (''Failed to stop container: '' @ stderr (compose_down (manager_runtime env)))
           ''STOP_CONTAINER_FAILED'', f)"
    by (rule set_resource_limits_stop_failed [OF assms(4,5)])
  have e: "exit_code result = 1" and t: "err_text result = []" and f': "f' = f"
    using m main_set [of "manager_platform env" "manager_runtime env" f ?c ?m]
    unfolding st by (simp_all add: failure_def no_result_def)
  show ?thesis
    unfolding gateway_set_resource_limits_parsed [OF assms(1,2)] r m
    using e t f' by simp
qed

text \<open>
  C2. Claimed: when the stop step fails, \<open>set_resource_limits\<close> fails with
  \<open>STOP_CONTAINER_FAILED\<close> and the diagnostic, the manifest is not touched, and the
  dispatcher answers \<open>RESOURCE_LIMITS_ERROR:<diagnostic>\<close>. The first three hold. The
  dispatcher's answer does not carry the diagnostic: the child process prints the
  message on standard output and exits with code 1, the gateway appends the child's
  standard error, which is empty, and the answer is \<open>RESOURCE_LIMITS_ERROR:\<close> alone.
\<close>

theorem stop_failure_response_has_no_diagnostic:
  "set_resource_limits example_platform stop_failing_runtime baseline_file
       (Some ''0.5'') (Some ''512M'')
     = (failure (''Failed to stop container: '' @ stop_diagnostic) ''STOP_CONTAINER_FAILED'',
        baseline_file)
   \<and> set_resource_limits_commands example_platform stop_failing_runtime baseline_file
       (Some ''0.5'') (Some ''512M'') = [down_cmd]
   \<and> main example_platform stop_failing_runtime baseline_file
       [''resource_manager.py'', ''set'', ''0.5'', ''512M'']
     = (\<lparr>exit_code = 1, printed = ['' Failed to stop container: '' @ stop_diagnostic],
         err_text = []\<rparr>, baseline_file)
   \<and> process_obc_command (example_surroundings\<lparr>manager_runtime := stop_failing_runtime\<rparr>)
       baseline_file ''SET_RESOURCE_LIMITS:cpu=0.5,memory=512M''
     = (Some ''RESOURCE_LIMITS_ERROR:'', baseline_file)"
  by code_simp

subsection \<open>A failing stop step while limits are reset\<close>

definition limited_file :: manifest_file where
  "limited_file =
     baseline_file\<lparr>compose_text :=
       Some (original_content @ nl @ limits_section (Some ''0.5'') (Some ''512M'') ''0.25'')\<rparr>"

text \<open>The outcome of the stop command has no influence on the reset.\<close>

lemma reset_resource_limits_stop_irrelevant:
  "reset_resource_limits (rt\<lparr>compose_down := p\<rparr>) f = reset_resource_limits rt f"
  by (simp add: reset_resource_limits_def Let_def split: option.splits)

text \<open>
  C3. Claimed: when the stop step fails, \<open>reset_resource_limits\<close> fails with
  \<open>STOP_CONTAINER_FAILED\<close> and neither overwrites the manifest nor recreates the
  instance. The method never reads the outcome of the stop command: with a failing stop
  it overwrites the manifest with the baseline, starts the instance and reports success.
\<close>

theorem reset_resource_limits_ignores_stop_failure:
  "returncode (compose_down stop_failing_runtime) = 1
   \<and> reset_resource_limits stop_failing_runtime limited_file
     = (no_result\<lparr>success := True,
          message := Some ''Resource limits reset to default (unlimited)'',
          limits := Some (Some ''unlimited'', Some ''unlimited'')\<rparr>,
        limited_file\<lparr>compose_text := Some original_content\<rparr>)
   \<and> reset_resource_limits_commands stop_failing_runtime limited_file = [down_cmd, up_cmd]
   \<and> compose_text limited_file \<noteq> Some original_content"
  by code_simp

subsection \<open>Unrecognized commands\<close>

text \<open>The dispatch table, on a command that is already trimmed and in upper case.\<close>

definition recognized :: "string \<Rightarrow> bool" where
  "recognized command =
     (startswith command ''[LOG]''
      \<or> command \<in> set [''START_CONTAINER'', ''STOP_CONTAINER'', ''GET_CONTAINER_STATUS'',
            ''RUN_PAYLOAD'', ''GET_STATUS'', ''GET_FILES'', ''SHUTDOWN'', ''PING'',
            ''RESET_RESOURCE_LIMITS'']
      \<or> startswith command ''SET_RESOURCE_LIMITS:''
      \<or> startswith command ''TEXT_PROMPT:'')"

text \<open>
  C4, as claimed, fails: the response to the unrecognized line \<open>foo\<close> is
  \<open>UNKNOWN_CMD:FOO\<close>, not \<open>UNKNOWN_CMD:foo\<close>.
\<close>

theorem unknown_cmd_not_original_counterexample:
  "\<not> recognized (upper (strip ''foo''))
   \<and> fst (process_obc_command example_surroundings baseline_file ''foo'')
       \<noteq> Some (''UNKNOWN_CMD:'' @ ''foo'')
   \<and> fst (process_obc_command example_surroundings baseline_file ''foo'')
       = Some ''UNKNOWN_CMD:FOO''"
  by code_simp

text \<open>
  C4, amended: for every line that matches no entry of the dispatch table after trimming
  and case normalization, the response is \<open>UNKNOWN_CMD:\<close> followed by the trimmed,
  upper-cased line, and the manifest file is left as it was.
\<close>

theorem unknown_cmd_normalized:
  "\<not> recognized (upper (strip line)) \<Longrightarrow>
   process_obc_command env f line = (Some (''UNKNOWN_CMD:'' @ upper (strip line)), f)"
  by (simp add: recognized_def process_obc_command_def Let_def)

theorem unknown_cmd_normalized_witness:
  "\<not> recognized (upper (strip ''  status? ''))
   \<and> process_obc_command example_surroundings baseline_file ''  status? ''
     = (Some ''UNKNOWN_CMD:STATUS?'', baseline_file)"
proof -
  have n: "upper (strip ''  status? '') = ''STATUS?''" by code_simp
  have h: "\<not> recognized (upper (strip ''  status? ''))" unfolding n by code_simp
  show ?thesis
    using h unknown_cmd_normalized [OF h, of example_surroundings baseline_file]
    by (simp add: n)
qed

subsection \<open>The text prompt\<close>

text \<open>
  What the dispatcher answers to a text prompt, for every payload \<open>t\<close>: the payload
  without its trailing whitespace, in upper case, followed by \<open>OK\<close>.
\<close>

lemma text_prompt_response:
  "process_obc_command env f (''TEXT_PROMPT:'' @ t) = (Some (upper (rstrip t) @ '' OK''), f)"
proof -
  have s: "strip (''TEXT_PROMPT:'' @ t) = ''TEXT_PROMPT:'' @ rstrip t"
    by (rule strip_nonspace) (simp_all add: is_space_def)
  have u: "upper ''TEXT_PROMPT:'' = ''TEXT_PROMPT:''" by code_simp
  have "upper (strip (''TEXT_PROMPT:'' @ t)) = upper ''TEXT_PROMPT:'' @ upper (rstrip t)"
    unfolding s upper_def by (rule map_append)
  then have n: "upper (strip (''TEXT_PROMPT:'' @ t)) = ''TEXT_PROMPT:'' @ upper (rstrip t)"
    unfolding u .
  have h: "handle_text_prompt (''TEXT_PROMPT:'' @ upper (rstrip t)) = upper (rstrip t) @ '' OK''"
    by (rule handle_text_prompt_payload)
  show ?thesis
    unfolding process_obc_command_def n Let_def h by simp
qed

text \<open>
  C5. Claimed: the line \<open>TEXT_PROMPT:hello\<close> is answered with \<open>hello OK\<close>. The dispatcher
  puts the whole line in upper case before it reaches the handler, so the answer is
  \<open>HELLO OK\<close>, whatever the surroundings.
\<close>

theorem text_prompt_hello_upper_cased:
  "process_obc_command env f ''TEXT_PROMPT:hello'' = (Some ''HELLO OK'', f)"
proof -
  have n: "upper (strip ''TEXT_PROMPT:hello'') = ''TEXT_PROMPT:HELLO''" by code_simp
  have h: "handle_text_prompt ''TEXT_PROMPT:HELLO'' = ''HELLO OK''" by code_simp
  show ?thesis
    by (simp add: process_obc_command_def Let_def n h)
qed

subsection \<open>Reset after any number of applications\<close>

text \<open>
  A sequence of \<open>set_resource_limits\<close> calls, each with its own values and its own
  answers of the runtime; the manifest file is handed from one call to the next.
\<close>

fun apply_limits_seq ::
  "platform \<Rightarrow> manifest_file \<Rightarrow> (runtime \<times> string option \<times> string option) list
     \<Rightarrow> manifest_file" where
  "apply_limits_seq pf f [] = f"
| "apply_limits_seq pf f ((rt, cpu_limit, memory_limit) # calls) =
     apply_limits_seq pf (snd (set_resource_limits pf rt f cpu_limit memory_limit)) calls"

lemma update_compose_file_write_error:
  "write_error (snd (update_compose_file pf f cpu_limit memory_limit)) = write_error f"
  by (simp add: update_compose_file_def split: option.splits sum.splits)

lemma set_resource_limits_write_error:
  "write_error (snd (set_resource_limits pf rt f cpu_limit memory_limit)) = write_error f"
proof -
  have "write_error (snd (update_compose_file pf f cpu_limit memory_limit)) = write_error f"
    by (rule update_compose_file_write_error)
  then show ?thesis
    by (cases "update_compose_file pf f cpu_limit memory_limit")
      (simp add: set_resource_limits_def Let_def split: option.splits)
qed

lemma apply_limits_seq_write_error:
  "write_error (apply_limits_seq pf f calls) = write_error f"
  by (induction calls arbitrary: f) (auto simp: set_resource_limits_write_error)

lemma reset_resource_limits_writes_baseline:
  "write_error f = None \<Longrightarrow> compose_down_raises rt = None \<Longrightarrow>
   compose_text (snd (reset_resource_limits rt f)) = Some original_content"
  by (simp add: reset_resource_limits_def Let_def split: option.splits)

text \<open>When the call of the stop command raises, the reset ends before the write.\<close>

lemma reset_resource_limits_stop_raises:
  "compose_down_raises rt = Some e \<Longrightarrow>
   reset_resource_limits rt f = (failure (''Error resetting limits: '' @ e) ''EXCEPTION'', f)"
  by (simp add: reset_resource_limits_def)

lemma original_content_has_no_section: "\<not> contains original_content ''deploy:''"
  by code_simp

text \<open>
  C6, as claimed, fails: when the call of the stop command raises (its output cannot be
  decoded), \<open>reset_resource_limits\<close> returns \<open>EXCEPTION\<close> before it writes, although the
  file can be written, and the manifest keeps the limits section of the application
  before.
\<close>

theorem reset_leaves_limits_when_stop_raises_counterexample:
  "write_error baseline_file = None
   \<and> reset_resource_limits stop_raising_runtime
        (apply_limits_seq example_platform baseline_file
           [(healthy_runtime, Some ''0.5'', Some ''512M'')])
     = (failure (''Error resetting limits: '' @ decode_error) ''EXCEPTION'', limited_file)
   \<and> compose_text (snd (reset_resource_limits stop_raising_runtime
        (apply_limits_seq example_platform baseline_file
           [(healthy_runtime, Some ''0.5'', Some ''512M'')])))
       \<noteq> Some original_content"
  by code_simp

text \<open>
  C6, amended. Whatever limits were applied before, in whatever number and with
  whatever answers of the runtime, \<open>reset_resource_limits\<close> leaves the manifest file
  holding exactly the baseline document, provided the file can be written and the call
  of the stop command does not raise; the baseline has no \<open>deploy:\<close> section.
\<close>

theorem reset_after_applications_restores_baseline:
  "write_error f = None \<Longrightarrow> compose_down_raises rt = None \<Longrightarrow>
   compose_text (snd (reset_resource_limits rt (apply_limits_seq pf f calls)))
     = Some original_content
   \<and> \<not> contains original_content ''deploy:''"
  using reset_resource_limits_writes_baseline [of "apply_limits_seq pf f calls" rt]
  by (simp add: apply_limits_seq_write_error original_content_has_no_section)

theorem reset_after_applications_restores_baseline_witness:
  "write_error baseline_file = None
   \<and> compose_down_raises stop_failing_runtime = None
   \<and> compose_text (apply_limits_seq example_platform baseline_file
        [(healthy_runtime, Some ''0.5'', Some ''512M''), (healthy_runtime, Some ''2.0'', None)])
       \<noteq> Some original_content
   \<and> compose_text (snd (reset_resource_limits stop_failing_runtime
        (apply_limits_seq example_platform baseline_file
           [(healthy_runtime, Some ''0.5'', Some ''512M''), (healthy_runtime, Some ''2.0'', None)])))
       = Some original_content
   \<and> \<not> contains original_content ''deploy:''"
proof -
  have h: "write_error baseline_file = None" by (simp add: baseline_file_def)
  have r: "compose_down_raises stop_failing_runtime = None"
    by (simp add: stop_failing_runtime_def healthy_runtime_def)
  have d: "compose_text (apply_limits_seq example_platform baseline_file
        [(healthy_runtime, Some ''0.5'', Some ''512M''), (healthy_runtime, Some ''2.0'', None)])
       \<noteq> Some original_content"
    by code_simp
  show ?thesis
    using h r d reset_after_applications_restores_baseline [OF h r, of example_platform
        "[(healthy_runtime, Some ''0.5'', Some ''512M''), (healthy_runtime, Some ''2.0'', None)]"]
    by simp
qed

subsection \<open>Reading the applied limits back\<close>

text \<open>An entry of \<open>HostConfig\<close> that is present and greater than zero.\<close>

definition positive :: "int option \<Rightarrow> bool" where
  "positive x = (case x of None \<Rightarrow> False | Some v \<Rightarrow> 0 < v)"

text \<open>The division \<open>cpu_quota / cpu_period\<close> does not raise.\<close>

definition cpu_readable :: "host_config \<Rightarrow> bool" where
  "cpu_readable h = (positive (CpuQuota h) \<longrightarrow> CpuPeriod h \<noteq> Some 0)"

definition counted_config :: host_config where
  "counted_config =
     \<lparr>CpuQuota = Some 0, CpuPeriod = Some 0, CpuCount = Some 2, Memory = Some 2147483648\<rparr>"

definition unlimited_config :: host_config where
  "unlimited_config = \<lparr>CpuQuota = Some 0, CpuPeriod = Some 0, CpuCount = Some 0, Memory = Some 0\<rparr>"

definition small_config :: host_config where
  "small_config = \<lparr>CpuQuota = None, CpuPeriod = None, CpuCount = None, Memory = Some 1000\<rparr>"

text \<open>
  C7, as claimed, fails: with a zero quota and a positive \<open>CpuCount\<close> the CPU entry reads
  back as the count, not as \<open>unlimited\<close>.
\<close>

theorem zero_quota_not_unlimited_counterexample:
  "returncode (docker_inspect (healthy_runtime\<lparr>inspect_json := Inr (Some counted_config)\<rparr>)) = 0
   \<and> CpuQuota counted_config = Some 0
   \<and> fst (get_current_limits example_platform
            (healthy_runtime\<lparr>inspect_json := Inr (Some counted_config)\<rparr>)) = ''2''
   \<and> fst (get_current_limits example_platform
            (healthy_runtime\<lparr>inspect_json := Inr (Some counted_config)\<rparr>)) \<noteq> ''unlimited''"
  by code_simp

lemma get_current_limits_parsed:
  "returncode (docker_inspect rt) = 0 \<Longrightarrow> inspect_json rt = Inr (Some h) \<Longrightarrow>
   get_current_limits pf rt =
     (case read_cpu pf h of
        None \<Rightarrow> (''unknown'', ''unknown'')
      | Some cpu_limit \<Rightarrow> (cpu_limit, read_memory pf h))"
  by (simp add: get_current_limits_def)

lemma read_cpu_readable: "cpu_readable h \<Longrightarrow> read_cpu pf h \<noteq> None"
  by (auto simp: cpu_readable_def positive_def read_cpu_def Let_def split: option.splits)

text \<open>
  C7, amended. When the inspect query succeeds and yields a \<open>HostConfig\<close>:
  a positive quota with a positive period reads back as the one-decimal text of
  quota / period; a quota that is zero or unset reads back as \<open>CpuCount\<close> when that is
  positive and as \<open>unlimited\<close> otherwise; and, unless the quota is positive with a period
  of zero (the division then raises and both entries read \<open>unknown\<close>), a memory limit
  \<open>b\<close> reads back as G-text from \<open>2^30\<close>, as M-text from \<open>2^20\<close>, as raw bytes below,
  and as \<open>unlimited\<close> when it is zero or unset.
\<close>

theorem get_current_limits_readback:
  assumes "returncode (docker_inspect rt) = 0" and "inspect_json rt = Inr (Some h)"
  shows
    "(CpuQuota h = Some q \<and> 0 < q \<and> CpuPeriod h = Some p \<and> 0 < p \<longrightarrow>
        fst (get_current_limits pf rt) = fmt_1f pf q p)
     \<and> (\<not> positive (CpuQuota h) \<and> CpuCount h = Some n \<and> 0 < n \<longrightarrow>
        fst (get_current_limits pf rt) = str_int n)
     \<and> (\<not> positive (CpuQuota h) \<and> \<not> positive (CpuCount h) \<longrightarrow>
        fst (get_current_limits pf rt) = ''unlimited'')
     \<and> (cpu_readable h \<and> Memory h = Some b \<and> 2 ^ 30 \<le> b \<longrightarrow>
        snd (get_current_limits pf rt) = fmt_1f pf b (2 ^ 30) @ ''G'')
     \<and> (cpu_readable h \<and> Memory h = Some b \<and> 2 ^ 20 \<le> b \<and> b < 2 ^ 30 \<longrightarrow>
        snd (get_current_limits pf rt) = fmt_0f pf b (2 ^ 20) @ ''M'')
     \<and> (cpu_readable h \<and> Memory h = Some b \<and> 0 < b \<and> b < 2 ^ 20 \<longrightarrow>
        snd (get_current_limits pf rt) = str_int b @ ''B'')
     \<and> (cpu_readable h \<and> \<not> positive (Memory h) \<longrightarrow>
        snd (get_current_limits pf rt) = ''unlimited'')"
proof -
  note g = get_current_limits_parsed [OF assms, of pf]
  have cpu1: "CpuQuota h = Some q \<and> 0 < q \<and> CpuPeriod h = Some p \<and> 0 < p \<longrightarrow>
      fst (get_current_limits pf rt) = fmt_1f pf q p"
    by (simp add: g read_cpu_def Let_def)
  have cpu2: "\<not> positive (CpuQuota h) \<and> CpuCount h = Some n \<and> 0 < n \<longrightarrow>
      fst (get_current_limits pf rt) = str_int n"
    by (auto simp: g read_cpu_def positive_def split: option.splits)
  have cpu3: "\<not> positive (CpuQuota h) \<and> \<not> positive (CpuCount h) \<longrightarrow>
      fst (get_current_limits pf rt) = ''unlimited''"
    by (auto simp: g read_cpu_def positive_def split: option.splits)
  have m: "cpu_readable h \<Longrightarrow> snd (get_current_limits pf rt) = read_memory pf h"
    using read_cpu_readable [of h pf] by (auto simp: g split: option.splits)
  have mem1: "cpu_readable h \<and> Memory h = Some b \<and> 2 ^ 30 \<le> b \<longrightarrow>
      snd (get_current_limits pf rt) = fmt_1f pf b (2 ^ 30) @ ''G''"
    using m by (auto simp: read_memory_def Let_def)
  have mem2: "cpu_readable h \<and> Memory h = Some b \<and> 2 ^ 20 \<le> b \<and> b < 2 ^ 30 \<longrightarrow>
      snd (get_current_limits pf rt) = fmt_0f pf b (2 ^ 20) @ ''M''"
    using m by (auto simp: read_memory_def Let_def)
  have mem3: "cpu_readable h \<and> Memory h = Some b \<and> 0 < b \<and> b < 2 ^ 20 \<longrightarrow>
      snd (get_current_limits pf rt) = str_int b @ ''B''"
    using m by (auto simp: read_memory_def Let_def)
  have mem4: "cpu_readable h \<and> \<not> positive (Memory h) \<longrightarrow>
      snd (get_current_limits pf rt) = ''unlimited''"
    using m by (auto simp: read_memory_def positive_def split: option.splits)
  show ?thesis
    using cpu1 cpu2 cpu3 mem1 mem2 mem3 mem4 by blast
qed

theorem get_current_limits_readback_witness:
  "returncode (docker_inspect healthy_runtime) = 0
   \<and> inspect_json healthy_runtime = Inr (Some limited_config)
   \<and> get_current_limits example_platform healthy_runtime = (''0.5'', ''512M'')
   \<and> get_current_limits example_platform
        (healthy_runtime\<lparr>inspect_json := Inr (Some counted_config)\<rparr>) = (''2'', ''2.0G'')
   \<and> get_current_limits example_platform
        (healthy_runtime\<lparr>inspect_json := Inr (Some unlimited_config)\<rparr>)
       = (''unlimited'', ''unlimited'')
   \<and> get_current_limits example_platform
        (healthy_runtime\<lparr>inspect_json := Inr (Some small_config)\<rparr>)
       = (''unlimited'', ''1000B'')"
proof -
  let ?rt = "\<lambda>h. healthy_runtime\<lparr>inspect_json := Inr (Some h)\<rparr>"
  have ok: "returncode (docker_inspect healthy_runtime) = 0"
    and js: "inspect_json healthy_runtime = Inr (Some limited_config)"
    by (simp_all add: healthy_runtime_def ok_proc_def)
  have ok': "\<And>h. returncode (docker_inspect (?rt h)) = 0"
    and js': "\<And>h. inspect_json (?rt h) = Inr (Some h)"
    by (simp_all add: healthy_runtime_def ok_proc_def)
  have fa: "CpuQuota limited_config = Some 50000 \<and> 0 < (50000::int)
      \<and> CpuPeriod limited_config = Some 100000 \<and> 0 < (100000::int)"
    and fa': "cpu_readable limited_config \<and> Memory limited_config = Some 536870912
      \<and> (2::int) ^ 20 \<le> 536870912 \<and> (536870912::int) < 2 ^ 30"
    by (simp_all add: limited_config_def cpu_readable_def positive_def)
  have fb: "\<not> positive (CpuQuota counted_config) \<and> CpuCount counted_config = Some 2
      \<and> 0 < (2::int)"
    and fb': "cpu_readable counted_config \<and> Memory counted_config = Some 2147483648
      \<and> (2::int) ^ 30 \<le> 2147483648"
    by (simp_all add: counted_config_def cpu_readable_def positive_def)
  have fc: "\<not> positive (CpuQuota unlimited_config) \<and> \<not> positive (CpuCount unlimited_config)"
    and fc': "cpu_readable unlimited_config \<and> \<not> positive (Memory unlimited_config)"
    by (simp_all add: unlimited_config_def cpu_readable_def positive_def)
  have fd: "\<not> positive (CpuQuota small_config) \<and> \<not> positive (CpuCount small_config)"
    and fd': "cpu_readable small_config \<and> Memory small_config = Some 1000
      \<and> 0 < (1000::int) \<and> (1000::int) < 2 ^ 20"
    by (simp_all add: small_config_def cpu_readable_def positive_def)
  have ea: "fmt_1f example_platform 50000 100000 = ''0.5''"
    and ea': "fmt_0f example_platform 536870912 (2 ^ 20) @ ''M'' = ''512M''"
    and eb: "str_int 2 = ''2''"
    and eb': "fmt_1f example_platform 2147483648 (2 ^ 30) @ ''G'' = ''2.0G''"
    and ed: "str_int 1000 @ ''B'' = ''1000B''"
    by code_simp+
  note A = get_current_limits_readback [OF ok js, where pf = example_platform
      and q = 50000 and p = 100000 and b = 536870912]
  note B = get_current_limits_readback [OF ok' js', where pf = example_platform
      and h = counted_config and n = 2 and b = 2147483648]
  note C = get_current_limits_readback [OF ok' js', where pf = example_platform
      and h = unlimited_config]
  note D = get_current_limits_readback [OF ok' js', where pf = example_platform
      and h = small_config and b = 1000]
  have a: "get_current_limits example_platform healthy_runtime = (''0.5'', ''512M'')"
    using A fa fa' ea ea' by (simp add: prod_eq_iff)
  have b: "get_current_limits example_platform (?rt counted_config) = (''2'', ''2.0G'')"
    using B fb fb' eb eb' by (simp add: prod_eq_iff)
  have c: "get_current_limits example_platform (?rt unlimited_config)
      = (''unlimited'', ''unlimited'')"
    using C fc fc' by (simp add: prod_eq_iff)
  have d: "get_current_limits example_platform (?rt small_config) = (''unlimited'', ''1000B'')"
    using D fd fd' ed by (simp add: prod_eq_iff)
  show ?thesis
    using ok js a b c d by simp
qed

subsection \<open>The status probe\<close>

text \<open>Surroundings in which no instance exists: every query of the probe fails.\<close>

definition no_such_container :: string where
  "no_such_container = ''Error response from daemon: No such container: satlyt-container'' @ nl"

definition absent_surroundings :: surroundings where
  "absent_surroundings =
     example_surroundings
       \<lparr>cpu_proc := failed_proc no_such_container,
        mem_proc := failed_proc no_such_container,
        mem_percent_proc := failed_proc no_such_container,
        net_proc := failed_proc no_such_container,
        block_proc := failed_proc no_such_container,
        info_proc := \<lparr>returncode = 1, stdout = nl,
                       stderr = ''Error: No such object: satlyt-container'' @ nl\<rparr>\<rparr>"

text \<open>
  The part of C8 that holds for every input: a metric whose query fails reads \<open>N/A\<close>,
  a metric whose query succeeds reads the trimmed output, each on its own, and the probe
  always answers with a \<open>CONTAINER_STATUS:\<close> line.
\<close>

lemma metric_degrades: "metric r = (if returncode r = 0 then strip (stdout r) else ''N/A'')"
  by (simp add: metric_def)

lemma status_data_metrics:
  "map_of (status_data env) ''cpu_percent'' = Some (metric (cpu_proc env))
   \<and> map_of (status_data env) ''memory_usage'' = Some (metric (mem_proc env))
   \<and> map_of (status_data env) ''memory_percent'' = Some (metric (mem_percent_proc env))
   \<and> map_of (status_data env) ''network_io'' = Some (metric (net_proc env))
   \<and> map_of (status_data env) ''block_io'' = Some (metric (block_proc env))"
  by (simp add: status_data_def Let_def)

text \<open>
  C8. Claimed: a failing lifecycle query degrades the lifecycle status to \<open>unknown\<close>.
  The probe does not look at the return code of that query, and \<open>split\<close> never returns
  an empty list, so the branch that would answer \<open>unknown\<close> is never taken: when the
  query fails with nothing on standard output, the status is the empty text.
\<close>

theorem failed_info_query_gives_empty_status:
  "returncode (info_proc absent_surroundings) = 1
   \<and> map_of (status_data absent_surroundings) ''status'' = Some []
   \<and> get_container_status absent_surroundings
     = ''CONTAINER_STATUS:'' @ json_dumps
         [(''container_name'', ''satlyt-container''),
          (''status'', []),
          (''cpu_percent'', ''N/A''),
          (''memory_usage'', ''N/A''),
          (''memory_percent'', ''N/A''),
          (''network_io'', ''N/A''),
          (''block_io'', ''N/A''),
          (''started_at'', ''N/A''),
          (''image'', ''N/A''),
          (''timestamp'', ''2025-01-01T00:00:05.000000'')]"
  by code_simp

subsection \<open>A manifest without the identity marker\<close>

















subsection \<open>A command with one of the two keys\<close>

text \<open>
  C10. When the payload of \<open>SET_RESOURCE_LIMITS:\<close> gives a non-empty value \<open>v\<close> for one
  key and does not name the other, and the orchestration succeeds, the child process is
  started with the default in place of the missing value (\<open>1G\<close> for the memory,
  \<open>1.0\<close> for the CPU) and the manifest is left as the orchestrator leaves it with that
  default; the response prints the missing value as \<open>None\<close>.
\<close>

theorem one_key_response_prints_None:
  "(parse_pairs (split payload (CHR '','')) (None, None) = (Some v, None)
      \<and> v \<noteq> [] \<and> CHR 0x00 \<notin> set v
      \<and> success (fst (set_resource_limits (manager_platform env) (manager_runtime env) f
            (Some v) (Some ''1G'')))
    \<longrightarrow> cmd_parts (Some v) None = [''python3'', ''resource_manager.py'', ''set'', v, ''1G'']
      \<and> gateway_set_resource_limits env f (''SET_RESOURCE_LIMITS:'' @ payload)
        = (''RESOURCE_LIMITS_SET:CPU='' @ v @ '',Memory=None'',
           snd (set_resource_limits (manager_platform env) (manager_runtime env) f
                  (Some v) (Some ''1G''))))
   \<and> (parse_pairs (split payload (CHR '','')) (None, None) = (None, Some v)
      \<and> v \<noteq> [] \<and> CHR 0x00 \<notin> set v
      \<and> success (fst (set_resource_limits (manager_platform env) (manager_runtime env) f
            (Some ''1.0'') (Some v)))
    \<longrightarrow> cmd_parts None (Some v) = [''python3'', ''resource_manager.py'', ''set'', ''1.0'', v]
      \<and> gateway_set_resource_limits env f (''SET_RESOURCE_LIMITS:'' @ payload)
        = (''RESOURCE_LIMITS_SET:CPU=None,Memory='' @ v,
           snd (set_resource_limits (manager_platform env) (manager_runtime env) f
                  (Some ''1.0'') (Some v))))"
proof -
  have z1: "CHR 0x00 \<notin> set ''1G''" and z2: "CHR 0x00 \<notin> set ''1.0''" by simp_all
  have cpu_only: "cmd_parts (Some v) None = [''python3'', ''resource_manager.py'', ''set'', v, ''1G'']"
    if "v \<noteq> []"
    using that by (simp add: cmd_parts_def truthy_def)
  have mem_only: "cmd_parts None (Some v) = [''python3'', ''resource_manager.py'', ''set'', ''1.0'', v]"
    if "v \<noteq> []"
    using that by (simp add: cmd_parts_def truthy_def)
  show ?thesis
  proof (intro conjI impI)
    assume a: "parse_pairs (split payload (CHR '','')) (None, None) = (Some v, None)
      \<and> v \<noteq> [] \<and> CHR 0x00 \<notin> set v
      \<and> success (fst (set_resource_limits (manager_platform env) (manager_runtime env) f
            (Some v) (Some ''1G'')))"
    then show "cmd_parts (Some v) None = [''python3'', ''resource_manager.py'', ''set'', v, ''1G'']"
      using cpu_only by blast
    from a have r: "run_manager env f (cmd_parts (Some v) None)
        = Inr (main (manager_platform env) (manager_runtime env) f
                 [''resource_manager.py'', ''set'', v, ''1G''])"
      using run_manager_set [OF _ z1, of v env f] cpu_only by simp
    show "gateway_set_resource_limits env f (''SET_RESOURCE_LIMITS:'' @ payload)
        = (''RESOURCE_LIMITS_SET:CPU='' @ v @ '',Memory=None'',
           snd (set_resource_limits (manager_platform env) (manager_runtime env) f
                  (Some v) (Some ''1G'')))"
    proof -
      obtain result f' where m: "main (manager_platform env) (manager_runtime env) f
          [''resource_manager.py'', ''set'', v, ''1G''] = (result, f')"
        by (cases "main (manager_platform env) (manager_runtime env) f
          [''resource_manager.py'', ''set'', v, ''1G'']")
      have e: "exit_code result = 0"
        and s: "f' = snd (set_resource_limits (manager_platform env) (manager_runtime env) f
                  (Some v) (Some ''1G''))"
        using a m main_set [of "manager_platform env" "manager_runtime env" f v "''1G''"]
        by simp_all
      have g: "gateway_set_resource_limits env f (''SET_RESOURCE_LIMITS:'' @ payload)
          = (case run_manager env f (cmd_parts (Some v) None) of
               Inl e \<Rightarrow> (''RESOURCE_LIMITS_ERROR:'' @ e, f)
             | Inr (result, f') \<Rightarrow>
                 if exit_code result = 0
                 then (''RESOURCE_LIMITS_SET:CPU='' @ fmt_opt (Some v)
                         @ '',Memory='' @ fmt_opt None, f')
                 else (''RESOURCE_LIMITS_ERROR:'' @ err_text result, f'))"
        using a by (intro gateway_set_resource_limits_parsed) (simp_all add: truthy_def)
      show ?thesis
        unfolding g r m using e s by (simp add: fmt_opt_def)
    qed
  next
    assume a: "parse_pairs (split payload (CHR '','')) (None, None) = (None, Some v)
      \<and> v \<noteq> [] \<and> CHR 0x00 \<notin> set v
      \<and> success (fst (set_resource_limits (manager_platform env) (manager_runtime env) f
            (Some ''1.0'') (Some v)))"
    then show "cmd_parts None (Some v) = [''python3'', ''resource_manager.py'', ''set'', ''1.0'', v]"
      using mem_only by blast
    from a have r: "run_manager env f (cmd_parts None (Some v))
        = Inr (main (manager_platform env) (manager_runtime env) f
                 [''resource_manager.py'', ''set'', ''1.0'', v])"
      using run_manager_set [OF z2, of v env f] mem_only by simp
    show "gateway_set_resource_limits env f (''SET_RESOURCE_LIMITS:'' @ payload)
        = (''RESOURCE_LIMITS_SET:CPU=None,Memory='' @ v,
           snd (set_resource_limits (manager_platform env) (manager_runtime env) f
                  (Some ''1.0'') (Some v)))"
    proof -
      obtain result f' where m: "main (manager_platform env) (manager_runtime env) f
          [''resource_manager.py'', ''set'', ''1.0'', v] = (result, f')"
        by (cases "main (manager_platform env) (manager_runtime env) f
          [''resource_manager.py'', ''set'', ''1.0'', v]")
      have e: "exit_code result = 0"
        and s: "f' = snd (set_resource_limits (manager_platform env) (manager_runtime env) f
                  (Some ''1.0'') (Some v))"
        using a m main_set [of "manager_platform env" "manager_runtime env" f "''1.0''" v]
        by simp_all
      have g: "gateway_set_resource_limits env f (''SET_RESOURCE_LIMITS:'' @ payload)
          = (case run_manager env f (cmd_parts None (Some v)) of
               Inl e \<Rightarrow> (''RESOURCE_LIMITS_ERROR:'' @ e, f)
             | Inr (result, f') \<Rightarrow>
                 if exit_code result = 0
                 then (''RESOURCE_LIMITS_SET:CPU='' @ fmt_opt None
                         @ '',Memory='' @ fmt_opt (Some v), f')
                 else (''RESOURCE_LIMITS_ERROR:'' @ err_text result, f'))"
        using a by (intro gateway_set_resource_limits_parsed) (simp_all add: truthy_def)
      show ?thesis
        unfolding g r m using e s by (simp add: fmt_opt_def)
    qed
  qed
qed

theorem one_key_response_prints_None_witness:
  "parse_pairs (split ''CPU=0.5'' (CHR '','')) (None, None) = (Some ''0.5'', None)
   \<and> success (fst (set_resource_limits example_platform healthy_runtime baseline_file
         (Some ''0.5'') (Some ''1G'')))
   \<and> gateway_set_resource_limits example_surroundings baseline_file
        ''SET_RESOURCE_LIMITS:CPU=0.5''
     = (''RESOURCE_LIMITS_SET:CPU=0.5,Memory=None'',
        baseline_file\<lparr>compose_text := Some (original_content @ nl
          @ limits_section (Some ''0.5'') (Some ''1G'') ''0.25'')\<rparr>)
   \<and> parse_pairs (split ''MEMORY=512M'' (CHR '','')) (None, None) = (None, Some ''512M'')
   \<and> success (fst (set_resource_limits example_platform healthy_runtime baseline_file
         (Some ''1.0'') (Some ''512M'')))
   \<and> gateway_set_resource_limits example_surroundings baseline_file
        ''SET_RESOURCE_LIMITS:MEMORY=512M''
     = (''RESOURCE_LIMITS_SET:CPU=None,Memory=512M'',
        baseline_file\<lparr>compose_text := Some (original_content @ nl
          @ limits_section (Some ''1.0'') (Some ''512M'') ''0.5'')\<rparr>)
   \<and> fst (process_obc_command example_surroundings baseline_file ''set_resource_limits:cpu=0.5'')
     = Some ''RESOURCE_LIMITS_SET:CPU=0.5,Memory=None''"
proof -
  have mp: "manager_platform example_surroundings = example_platform"
    and mr: "manager_runtime example_surroundings = healthy_runtime"
    by (simp_all add: example_surroundings_def)
  have p1: "parse_pairs (split ''CPU=0.5'' (CHR '','')) (None, None) = (Some ''0.5'', None)"
    and p2: "parse_pairs (split ''MEMORY=512M'' (CHR '','')) (None, None) = (None, Some ''512M'')"
    by code_simp+
  have s1: "success (fst (set_resource_limits example_platform healthy_runtime baseline_file
         (Some ''0.5'') (Some ''1G'')))"
    and s2: "success (fst (set_resource_limits example_platform healthy_runtime baseline_file
         (Some ''1.0'') (Some ''512M'')))"
    by code_simp+
  have f1: "snd (set_resource_limits example_platform healthy_runtime baseline_file
         (Some ''0.5'') (Some ''1G''))
      = baseline_file\<lparr>compose_text := Some (original_content @ nl
          @ limits_section (Some ''0.5'') (Some ''1G'') ''0.25'')\<rparr>"
    and f2: "snd (set_resource_limits example_platform healthy_runtime baseline_file
         (Some ''1.0'') (Some ''512M''))
      = baseline_file\<lparr>compose_text := Some (original_content @ nl
          @ limits_section (Some ''1.0'') (Some ''512M'') ''0.5'')\<rparr>"
    by code_simp+
  note T1 = one_key_response_prints_None [where payload = "''CPU=0.5''" and v = "''0.5''"
      and env = example_surroundings and f = baseline_file, unfolded mp mr f1]
  note T2 = one_key_response_prints_None [where payload = "''MEMORY=512M''" and v = "''512M''"
      and env = example_surroundings and f = baseline_file, unfolded mp mr f2]
  have g1: "gateway_set_resource_limits example_surroundings baseline_file
        (''SET_RESOURCE_LIMITS:'' @ ''CPU=0.5'')
     = (''RESOURCE_LIMITS_SET:CPU='' @ ''0.5'' @ '',Memory=None'',
        baseline_file\<lparr>compose_text := Some (original_content @ nl
          @ limits_section (Some ''0.5'') (Some ''1G'') ''0.25'')\<rparr>)"
    using T1 p1 s1 by simp
  have g2: "gateway_set_resource_limits example_surroundings baseline_file
        (''SET_RESOURCE_LIMITS:'' @ ''MEMORY=512M'')
     = (''RESOURCE_LIMITS_SET:CPU=None,Memory='' @ ''512M'',
        baseline_file\<lparr>compose_text := Some (original_content @ nl
          @ limits_section (Some ''1.0'') (Some ''512M'') ''0.5'')\<rparr>)"
    using T2 p2 s2 by simp
  have d: "fst (process_obc_command example_surroundings baseline_file
        ''set_resource_limits:cpu=0.5'') = Some ''RESOURCE_LIMITS_SET:CPU=0.5,Memory=None''"
    by code_simp
  show ?thesis
    using p1 p2 s1 s2 g1 g2 d by simp
qed

end
